theory Spec2Isabelle
  imports Complex_Main "HOL-Library.Sublist"
begin

section \<open>Exceptions\<close>

text \<open>
  The exceptions of \<^verbatim>\<open>smc.api.exceptions\<close> raised in the modelled code, and the
  built-in Python exceptions that the modelled code lets escape. The string carried by
  a constructor is the message of the exception.
\<close>

datatype error =
    SMCConnectionError string
  | UnsupportedEntryPoint string
  | ConfigLoadError string
  | RequestException string
  | ElementNotFound
  | ValueError
  | KeyError string
  | TypeError
  | AttributeError

section \<open>The entry point cache (\<^verbatim>\<open>SessionCache\<close>, session.py)\<close>

text \<open>
  An entry point is a JSON object read with \<^verbatim>\<open>entry.get('rel')\<close> and
  \<^verbatim>\<open>entry.get('href')\<close>: a dictionary from keys to strings, in which either key
  may be missing. The cache holds the list \<^verbatim>\<open>api_entry\<close> (\<^verbatim>\<open>None\<close> before
  the first discovery) and \<^verbatim>\<open>api_version\<close>. The version is a Python float when it
  was negotiated and whatever the caller passed otherwise; it is a type parameter, and
  Python's \<^verbatim>\<open>str\<close> on it is the parameter \<open>str_of\<close> of the functions that print it.
\<close>

type_synonym entry = "string \<rightharpoonup> string"

record 'v SessionCache =
  api_entry :: "entry list option"
  api_version :: "'v option"

definition new_SessionCache :: "'v SessionCache" where
  "new_SessionCache = \<lparr>api_entry = None, api_version = None\<rparr>"

definition format_version :: "('v \<Rightarrow> string) \<Rightarrow> 'v option \<Rightarrow> string" where
  "format_version str_of v = (case v of None \<Rightarrow> ''None'' | Some x \<Rightarrow> str_of x)"

definition unsupported_msg :: "string \<Rightarrow> string \<Rightarrow> string" where
  "unsupported_msg verb ver =
     ''The specified entry point '' @ [CHR 0x27] @ verb @ [CHR 0x27] @
     '' was not found in this version of the SMC API. Check the element documentation '' @
     ''to determine the correct version and specify the api_version '' @
     ''parameter during session.login() if necessary. Current api version is '' @ ver"

definition no_entry_points_msg :: string where
  "no_entry_points_msg =
     ''No entry points found, it is likely there is no valid login session.''"

text \<open>
  The loop of \<^verbatim>\<open>get_entry_href\<close>: \<^verbatim>\<open>href\<close> starts as \<^verbatim>\<open>None\<close> and every
  entry whose relation is \<open>verb\<close> overwrites it with that entry's \<^verbatim>\<open>href\<close>
  (\<^verbatim>\<open>None\<close> when the entry has none).
\<close>

fun href_loop :: "string \<Rightarrow> entry list \<Rightarrow> string option \<Rightarrow> string option" where
  "href_loop verb [] href = href"
| "href_loop verb (e # es) href =
     href_loop verb es (if e ''rel'' = Some verb then e ''href'' else href)"

text \<open>Python's truth value of \<^verbatim>\<open>href\<close>: \<^verbatim>\<open>None\<close> and the empty string are false.\<close>

definition truthy_str :: "string option \<Rightarrow> bool" where
  "truthy_str h = (case h of None \<Rightarrow> False | Some s \<Rightarrow> s \<noteq> [])"

definition get_entry_href ::
  "('v \<Rightarrow> string) \<Rightarrow> 'v SessionCache \<Rightarrow> string \<Rightarrow> error + string" where
  "get_entry_href str_of c verb =
     (case api_entry c of
        None \<Rightarrow> Inl (SMCConnectionError no_entry_points_msg)
      | Some es \<Rightarrow>
          if es = [] then Inl (SMCConnectionError no_entry_points_msg)
          else
            (let href = href_loop verb es None in
             if \<not> truthy_str href
             then Inl (UnsupportedEntryPoint
                         (unsupported_msg verb (format_version str_of (api_version c))))
             else Inr (the href)))"

definition get_all_entry_points :: "'v SessionCache \<Rightarrow> entry list option" where
  "get_all_entry_points c = api_entry c"

section \<open>The transport and the rest of the environment\<close>

text \<open>
  The session talks to the server through \<^verbatim>\<open>requests\<close>, parses bodies with
  \<^verbatim>\<open>json.loads\<close>, converts version identifiers with Python's \<^verbatim>\<open>float\<close> and reads
  stored settings with \<^verbatim>\<open>load_from_file\<close>. None of these is code of session.py: they
  are the fields of an environment that every modelled function takes as a parameter.
  A transport call returns \<open>Inl msg\<close> when it raises \<^verbatim>\<open>RequestException\<close>;
  \<open>json_loads\<close> and \<open>py_float\<close> return \<open>None\<close> when Python raises
  \<^verbatim>\<open>ValueError\<close>. The environment is fixed during one call of a modelled function;
  successive calls may be given different environments.

  A parsed body is a JSON object whose members are lists of flat objects, which is the
  shape of both discovery documents. A \<open>transport\<close> is a \<^verbatim>\<open>requests\<close> session,
  identified by its cookies.
\<close>

type_synonym doc = "string \<rightharpoonup> entry list"

record response =
  status_code :: int
  body :: string

datatype transport = Transport string

record 'v login_args =
  arg_url :: "string option"
  arg_api_key :: "string option"
  arg_api_version :: "'v option"
  arg_timeout :: "int option"

record 'v env =
  requests_get :: "string \<Rightarrow> int \<Rightarrow> string + response"
  json_loads :: "string \<Rightarrow> doc option"
  py_float :: "string \<Rightarrow> 'v option"
  py_str :: "'v \<Rightarrow> string"
  session_post :: "string \<Rightarrow> string option \<Rightarrow> string + int \<times> transport"
  session_put :: "transport \<Rightarrow> string \<Rightarrow> string + int"
  load_from_file :: "error + 'v login_args"

text \<open>Python's \<^verbatim>\<open>'%s' % n\<close> for an integer.\<close>

definition digit :: "nat \<Rightarrow> char" where
  "digit n = ''0123456789'' ! n"

function str_nat :: "nat \<Rightarrow> string" where
  "str_nat n = (if n < 10 then [digit n] else str_nat (n div 10) @ [digit (n mod 10)])"
  by pat_completeness auto
termination
  by (relation "measure id") auto

declare str_nat.simps [simp del]

definition str_int :: "int \<Rightarrow> string" where
  "str_int i = (if i < 0 then CHR ''-'' # str_nat (nat (- i)) else str_nat (nat i))"

text \<open>Python's \<^verbatim>\<open>'%s' % url\<close> for a string that may be \<^verbatim>\<open>None\<close>.\<close>

definition percent_s :: "string option \<Rightarrow> string" where
  "percent_s u = (case u of None \<Rightarrow> ''None'' | Some s \<Rightarrow> s)"

section \<open>Version negotiation and entry point discovery (\<^verbatim>\<open>get_api_entry\<close>)\<close>

text \<open>
  \<^verbatim>\<open>for version in j['version']: versions.append(version['rel'])\<close>: a missing key
  raises \<^verbatim>\<open>KeyError\<close>.
\<close>

fun version_rels :: "entry list \<Rightarrow> error + string list" where
  "version_rels [] = Inr []"
| "version_rels (v # vs) =
     (case v ''rel'' of
        None \<Rightarrow> Inl (KeyError ''rel'')
      | Some r \<Rightarrow> (case version_rels vs of Inl e \<Rightarrow> Inl e | Inr rs \<Rightarrow> Inr (r # rs)))"

text \<open>\<^verbatim>\<open>[float(i) for i in versions]\<close>: the first identifier that does not parse raises.\<close>

fun floats :: "(string \<Rightarrow> 'v option) \<Rightarrow> string list \<Rightarrow> error + 'v list" where
  "floats f [] = Inr []"
| "floats f (i # is) =
     (case f i of
        None \<Rightarrow> Inl ValueError
      | Some x \<Rightarrow> (case floats f is of Inl e \<Rightarrow> Inl e | Inr xs \<Rightarrow> Inr (x # xs)))"

text \<open>
  Python's \<^verbatim>\<open>max\<close> of a list: it keeps the first element and replaces it by every
  later element that is greater; the empty list raises \<^verbatim>\<open>ValueError\<close>.
\<close>

fun py_max :: "'v::linorder list \<Rightarrow> 'v option" where
  "py_max [] = None"
| "py_max (x # xs) = Some (fold (\<lambda>item m. if m < item then item else m) xs x)"

definition discover_version :: "'v::linorder env \<Rightarrow> string option \<Rightarrow> int \<Rightarrow> error + 'v" where
  "discover_version env url timeout =
     (case requests_get env (percent_s url @ ''/api'') timeout of
        Inl m \<Rightarrow> Inl (SMCConnectionError m)
      | Inr r \<Rightarrow>
          (case json_loads env (body r) of
             None \<Rightarrow> Inl ValueError
           | Some j \<Rightarrow>
               (case j ''version'' of
                  None \<Rightarrow> Inl (KeyError ''version'')
                | Some vs \<Rightarrow>
                    (case version_rels vs of
                       Inl e \<Rightarrow> Inl e
                     | Inr versions \<Rightarrow>
                         (case floats (py_float env) versions of
                            Inl e \<Rightarrow> Inl e
                          | Inr fs \<Rightarrow>
                              (case py_max fs of
                                 None \<Rightarrow> Inl ValueError
                               | Some v \<Rightarrow> Inr v))))))"

definition api_request_failed_msg :: "string \<Rightarrow> string" where
  "api_request_failed_msg t =
     ''Error occurred during initial api request, json was not returned. '' @
     ''Return data was: '' @ t"

text \<open>
  \<^verbatim>\<open>get_api_entry\<close> updates the cache in place, so the model returns the cache
  together with the outcome: an exception raised after \<^verbatim>\<open>self.api_version\<close> was
  assigned leaves that assignment in place. With \<^verbatim>\<open>url = None\<close> the concatenation
  \<^verbatim>\<open>url + '/'\<close> raises \<^verbatim>\<open>TypeError\<close>.
\<close>

definition get_api_entry ::
  "'v::linorder env \<Rightarrow> 'v SessionCache \<Rightarrow> string option \<Rightarrow> 'v option \<Rightarrow> int
     \<Rightarrow> (error + unit) \<times> 'v SessionCache" where
  "get_api_entry env c url version timeout =
     (case (case version of None \<Rightarrow> discover_version env url timeout | Some v \<Rightarrow> Inr v) of
        Inl e \<Rightarrow> (Inl e, c)
      | Inr v \<Rightarrow>
          (case url of
             None \<Rightarrow> (Inl TypeError, c)
           | Some u \<Rightarrow>
               (case requests_get env (u @ ''/'' @ py_str env v @ ''/api'') timeout of
                  Inl m \<Rightarrow> (Inl (SMCConnectionError m), c)
                | Inr r \<Rightarrow>
                    if status_code r = 200 then
                      (case json_loads env (body r) of
                         None \<Rightarrow> (Inl ValueError, c)
                       | Some j \<Rightarrow>
                           (let c1 = c\<lparr>api_version := Some v\<rparr> in
                            case j ''entry_point'' of
                              None \<Rightarrow> (Inl (KeyError ''entry_point''), c1)
                            | Some es \<Rightarrow> (Inr (), c1\<lparr>api_entry := Some es\<rparr>)))
                    else (Inl (SMCConnectionError (api_request_failed_msg (body r))), c))))"

section \<open>The session (\<^verbatim>\<open>Session\<close>, session.py)\<close>

text \<open>
  The fields of \<^verbatim>\<open>Session\<close>: \<^verbatim>\<open>_cache\<close>, \<^verbatim>\<open>_session\<close>, \<^verbatim>\<open>_connection\<close>
  (whether an \<^verbatim>\<open>SMCAPIConnection\<close> is bound), \<^verbatim>\<open>_url\<close>, \<^verbatim>\<open>_api_key\<close>,
  \<^verbatim>\<open>_timeout\<close> and the counter \<^verbatim>\<open>__http_401\<close>.
\<close>

record 'v Session =
  p_cache :: "'v SessionCache option"
  p_session :: "transport option"
  p_connection :: bool
  p_url :: "string option"
  p_api_key :: "string option"
  p_timeout :: int
  http_401 :: int

definition new_Session :: "'v Session" where
  "new_Session =
     \<lparr>p_cache = None, p_session = None, p_connection = False, p_url = None,
      p_api_key = None, p_timeout = 10, http_401 = 0\<rparr>"

text \<open>The property \<^verbatim>\<open>cache\<close> creates the cache on first use.\<close>

definition cache :: "'v Session \<Rightarrow> 'v SessionCache \<times> 'v Session" where
  "cache s =
     (case p_cache s of
        Some c \<Rightarrow> (c, s)
      | None \<Rightarrow> (new_SessionCache, s\<lparr>p_cache := Some new_SessionCache\<rparr>))"

definition truthy_int :: "int option \<Rightarrow> bool" where
  "truthy_int t = (case t of None \<Rightarrow> False | Some n \<Rightarrow> n \<noteq> 0)"

definition login_failed_msg :: "int \<Rightarrow> string" where
  "login_failed_msg status = ''Login failed, HTTP status code: '' @ str_int status"

text \<open>
  The part of \<^verbatim>\<open>login\<close> after the address and the credential are stored:
  discovery, then the POST of the credential on a new transport session.
  Logger calls have no effect on the session and are left out.
\<close>

definition login_connect ::
  "'v::linorder env \<Rightarrow> 'v option \<Rightarrow> 'v Session \<Rightarrow> (error + unit) \<times> 'v Session" where
  "login_connect env version s =
     (let (c, s1) = cache s;
          (r, c') = get_api_entry env c (p_url s1) version (p_timeout s1);
          s2 = s1\<lparr>p_cache := Some c'\<rparr>
      in case r of
           Inl e \<Rightarrow> (Inl e, s2)
         | Inr _ \<Rightarrow>
             (case get_entry_href (py_str env) c' ''login'' of
                Inl e \<Rightarrow> (Inl e, s2)
              | Inr href \<Rightarrow>
                  (case session_post env href (p_api_key s2) of
                     Inl m \<Rightarrow> (Inl (RequestException m), s2)
                   | Inr (status, t) \<Rightarrow>
                       if status = 200
                       then (Inr (), s2\<lparr>p_session := Some t, p_connection := True\<rparr>)
                       else (Inl (SMCConnectionError (login_failed_msg status)), s2))))"

text \<open>
  \<^verbatim>\<open>login\<close>. Without an address and a credential it calls itself with the stored
  settings of \<^verbatim>\<open>load_from_file\<close> and, when that call returns, goes on to connect
  again. With stored settings that are themselves incomplete the recursion does not end:
  the result \<open>None\<close> stands for a call that does not return.
\<close>

partial_function (option) login ::
  "'v::linorder env \<Rightarrow> string option \<Rightarrow> string option \<Rightarrow> 'v option \<Rightarrow> int option
     \<Rightarrow> 'v Session \<Rightarrow> ((error + unit) \<times> 'v Session) option" where
  "login env url api_key version timeout s =
     (if truthy_str url \<and> truthy_str api_key then
        Some (login_connect env version
                (s\<lparr>p_url := url, p_api_key := api_key,
                   p_timeout := (if truthy_int timeout then the timeout else p_timeout s)\<rparr>))
      else
        (case load_from_file env of
           Inl e \<Rightarrow> Some (Inl e, s)
         | Inr a \<Rightarrow>
             Option.bind
               (login env (arg_url a) (arg_api_key a) (arg_api_version a) (arg_timeout a) s)
               (\<lambda>(r, s').
                  case r of
                    Inl e \<Rightarrow> Some (Inl e, s')
                  | Inr _ \<Rightarrow> Some (login_connect env version s'))))"

declare login.simps [code]

datatype logrec = LogInfo string | LogError string

definition logout_expired_msg :: "int \<Rightarrow> string" where
  "logout_expired_msg status =
     ''Logout failed, session has already expired, status code: '' @ str_int status"

definition logout_failed_msg :: "int \<Rightarrow> string" where
  "logout_failed_msg status = ''Logout failed, status code: '' @ str_int status"

text \<open>
  \<^verbatim>\<open>logout\<close> returns nothing; its only effects are the request and one logger call,
  so the model returns the record that was logged (none when there is no session).
\<close>

definition logout ::
  "'v env \<Rightarrow> 'v Session \<Rightarrow> (error + logrec list) \<times> 'v Session" where
  "logout env s =
     (case p_session s of
        None \<Rightarrow> (Inr [], s)
      | Some t \<Rightarrow>
          (let (c, s1) = cache s in
           case get_entry_href (py_str env) c ''logout'' of
             Inl e \<Rightarrow> (Inl e, s1)
           | Inr href \<Rightarrow>
               (case session_put env t href of
                  Inl m \<Rightarrow> (Inl (RequestException m), s1)
                | Inr status \<Rightarrow>
                    if status = 204 then (Inr [LogInfo ''Logged out successfully''], s1)
                    else if status = 401 then (Inr [LogError (logout_expired_msg status)], s1)
                    else (Inr [LogError (logout_failed_msg status)], s1))))"

definition too_many_401_msg :: string where
  "too_many_401_msg = ''Unauthorized. Too many HTTP 401 requests received.''"

definition no_previous_session_msg :: string where
  "no_previous_session_msg =
     ''No previous SMC session found. This will require a new login attempt''"

definition http_unauthorized ::
  "'v::linorder env \<Rightarrow> 'v Session \<Rightarrow> ((error + unit) \<times> 'v Session) option" where
  "http_unauthorized env s =
     (let s1 = s\<lparr>http_401 := http_401 s + 1\<rparr> in
      if p_session s1 \<noteq> None then
        if http_401 s1 \<ge> 2 then Some (Inl (SMCConnectionError too_many_401_msg), s1)
        else
          (let (c, s2) = cache s1 in
           login env (p_url s2) (p_api_key s2) (api_version c) None s2)
      else Some (Inl (SMCConnectionError no_previous_session_msg), s1))"

section \<open>Rule fields (\<^verbatim>\<open>RuleElement\<close>, \<^verbatim>\<open>rule_elements.py\<close>)\<close>

text \<open>
  The values stored in the dictionaries of \<^verbatim>\<open>rule_elements.py\<close>: \<^verbatim>\<open>None\<close>, booleans,
  integers, strings and lists of addresses, with Python's truth value.
\<close>

datatype pyval = PyNone | PyBool bool | PyInt int | PyStr string | PyList "string list"

fun truthy :: "pyval \<Rightarrow> bool" where
  "truthy PyNone = False"
| "truthy (PyBool b) = b"
| "truthy (PyInt i) = (i \<noteq> 0)"
| "truthy (PyStr s) = (s \<noteq> [])"
| "truthy (PyList xs) = (xs \<noteq> [])"

definition truthy_opt :: "pyval option \<Rightarrow> bool" where
  "truthy_opt v = (case v of None \<Rightarrow> False | Some x \<Rightarrow> truthy x)"

text \<open>
  Modelled from the spec: the class \<^verbatim>\<open>NestedDict\<close> of \<^verbatim>\<open>smc.base.structs\<close>, the base
  of the classes below, is not among the sources. The spec describes the data of a field
  collection wrapper as one of \<^verbatim>\<open>{any: true}\<close>, \<^verbatim>\<open>{none: true}\<close> or
  \<^verbatim>\<open>{field: [list of addresses]}\<close>: a dictionary \<^verbatim>\<open>data\<close>, on which
  \<^verbatim>\<open>clear\<close>, \<^verbatim>\<open>update\<close>, \<^verbatim>\<open>get\<close> and \<^verbatim>\<open>in\<close> act as on a Python dictionary.
\<close>

record NestedDict =
  data :: "string \<rightharpoonup> pyval"

definition clear :: "'a NestedDict_scheme \<Rightarrow> 'a NestedDict_scheme" where
  "clear d = d\<lparr>data := Map.empty\<rparr>"

definition update_key :: "string \<Rightarrow> pyval \<Rightarrow> 'a NestedDict_scheme \<Rightarrow> 'a NestedDict_scheme" where
  "update_key k v d = d\<lparr>data := (data d)(k \<mapsto> v)\<rparr>"

definition get_key :: "'a NestedDict_scheme \<Rightarrow> string \<Rightarrow> pyval option" where
  "get_key d k = data d k"

definition contains_key :: "'a NestedDict_scheme \<Rightarrow> string \<Rightarrow> bool" where
  "contains_key d k = (data d k \<noteq> None)"

text \<open>
  The three classes that mix \<^verbatim>\<open>RuleElement\<close> in, each with its \<^verbatim>\<open>typeof\<close>.
\<close>

datatype rule_field = Destination | Source | Service

record RuleElement = NestedDict +
  field :: rule_field

definition typeof :: "RuleElement \<Rightarrow> string" where
  "typeof w = (case field w of Destination \<Rightarrow> ''dst'' | Source \<Rightarrow> ''src'' | Service \<Rightarrow> ''service'')"

text \<open>The constructors called without a rule: \<^verbatim>\<open>dict(none=True)\<close>.\<close>

definition new_RuleElement :: "rule_field \<Rightarrow> RuleElement" where
  "new_RuleElement f = \<lparr>data = [''none'' \<mapsto> PyBool True], field = f\<rparr>"

definition is_any :: "RuleElement \<Rightarrow> bool" where
  "is_any w = contains_key w ''any''"

definition set_any :: "RuleElement \<Rightarrow> RuleElement" where
  "set_any w = update_key ''any'' (PyBool True) (clear w)"

definition is_none :: "RuleElement \<Rightarrow> bool" where
  "is_none w = contains_key w ''none''"

definition set_none :: "RuleElement \<Rightarrow> RuleElement" where
  "set_none w = update_key ''none'' (PyBool True) (clear w)"

text \<open>
  \<^verbatim>\<open>add\<close>. The function \<^verbatim>\<open>element_resolver\<close> of \<^verbatim>\<open>smc.base.util\<close> is not among
  the sources; applied to one item it is the parameter \<open>element_resolver\<close>, which returns
  the address of the item or raises. Python evaluates \<^verbatim>\<open>self.get(self.typeof).append\<close>
  before the argument: a value without \<^verbatim>\<open>append\<close> (\<^verbatim>\<open>None\<close> for a missing key)
  raises \<^verbatim>\<open>AttributeError\<close> before the item is resolved. The wrapper is updated in
  place, so the model returns it together with the outcome.
\<close>

definition add ::
  "('a \<Rightarrow> error + string) \<Rightarrow> 'a \<Rightarrow> RuleElement \<Rightarrow> (error + unit) \<times> RuleElement" where
  "add element_resolver item w =
     (let w1 = (if is_none w \<or> is_any w
                then update_key (typeof w) (PyList []) (clear w) else w)
      in case get_key w1 (typeof w1) of
           Some (PyList xs) \<Rightarrow>
             (case element_resolver item of
                Inr href \<Rightarrow> (Inr (), update_key (typeof w1) (PyList (xs @ [href])) w1)
              | Inl ElementNotFound \<Rightarrow> (Inr (), w1)
              | Inl e \<Rightarrow> (Inl e, w1))
         | _ \<Rightarrow> (Inl AttributeError, w1))"

text \<open>
  Modelled from the spec: \<^verbatim>\<open>element_resolver\<close> applied to a list with
  \<^verbatim>\<open>do_raise=False\<close>, which is not among the sources. The spec: it "resolves all items,
  with unresolved locators dropped (non-raising resolution mode)".
\<close>

definition element_resolver_list :: "('a \<Rightarrow> error + string) \<Rightarrow> 'a list \<Rightarrow> string list" where
  "element_resolver_list element_resolver items =
     List.map_filter
       (\<lambda>x. case element_resolver x of Inr href \<Rightarrow> Some href | Inl e \<Rightarrow> None) items"

text \<open>
  \<^verbatim>\<open>add_many\<close>; its argument is a list, so the assertion on its type holds.
\<close>

definition add_many :: "('a \<Rightarrow> error + string) \<Rightarrow> 'a list \<Rightarrow> RuleElement \<Rightarrow> RuleElement" where
  "add_many element_resolver items w =
     (let w1 = (if is_none w \<or> is_any w
                then update_key (typeof w) (PyList []) (clear w) else w)
      in update_key (typeof w1) (PyList (element_resolver_list element_resolver items)) w1)"

text \<open>
  Iterating over the value of the field: a list gives its elements, a string its
  characters, and \<^verbatim>\<open>None\<close>, a boolean or an integer raise \<^verbatim>\<open>TypeError\<close>.
\<close>

definition iterate :: "pyval option \<Rightarrow> error + string list" where
  "iterate v =
     (case v of
        Some (PyList xs) \<Rightarrow> Inr xs
      | Some (PyStr s) \<Rightarrow> Inr (map (\<lambda>c. [c]) s)
      | _ \<Rightarrow> Inl TypeError)"

text \<open>
  \<^verbatim>\<open>all_as_href\<close> has no \<^verbatim>\<open>return\<close> after its \<^verbatim>\<open>if\<close>: in a marker state it
  returns \<^verbatim>\<open>None\<close>, which is the result \<open>Inr None\<close> of the model.
\<close>

definition all_as_href :: "RuleElement \<Rightarrow> error + string list option" where
  "all_as_href w =
     (if \<not> is_any w \<and> \<not> is_none w then
        (case iterate (get_key w (typeof w)) of
           Inl e \<Rightarrow> Inl e
         | Inr hrefs \<Rightarrow> Inr (Some hrefs))
      else Inr None)"

text \<open>
  \<^verbatim>\<open>all\<close>; \<^verbatim>\<open>Element.from_href\<close> is the parameter \<open>from_href\<close>, and the first
  address on which it raises ends the comprehension.
\<close>

fun from_hrefs :: "(string \<Rightarrow> error + 'e) \<Rightarrow> string list \<Rightarrow> error + 'e list" where
  "from_hrefs from_href [] = Inr []"
| "from_hrefs from_href (h # hs) =
     (case from_href h of
        Inl e \<Rightarrow> Inl e
      | Inr x \<Rightarrow> (case from_hrefs from_href hs of Inl e \<Rightarrow> Inl e | Inr xs \<Rightarrow> Inr (x # xs)))"

definition all_elements :: "(string \<Rightarrow> error + 'e) \<Rightarrow> RuleElement \<Rightarrow> error + 'e list" where
  "all_elements from_href w =
     (if \<not> is_any w \<and> \<not> is_none w then
        (case iterate (get_key w (typeof w)) of
           Inl e \<Rightarrow> Inl e
         | Inr hrefs \<Rightarrow> from_hrefs from_href hrefs)
      else Inr [])"

text \<open>
  The explicit-list form of a wrapper: the key \<^verbatim>\<open>typeof\<close> holds a list.
\<close>

definition has_list :: "RuleElement \<Rightarrow> bool" where
  "has_list w = (case get_key w (typeof w) of Some (PyList xs) \<Rightarrow> True | _ \<Rightarrow> False)"

section \<open>Log options (\<^verbatim>\<open>LogOptions\<close>, \<^verbatim>\<open>rule_elements.py\<close>)\<close>

text \<open>
  \<^verbatim>\<open>LogOptions\<close> is a \<^verbatim>\<open>NestedDict\<close>; the properties read and write keys of its
  data.
\<close>

definition new_LogOptions :: NestedDict where
  "new_LogOptions =
     \<lparr>data = [''log_accounting_info_mode'' \<mapsto> PyBool False,
              ''log_closing_mode'' \<mapsto> PyBool True,
              ''log_level'' \<mapsto> PyStr ''undefined'',
              ''log_payload_additionnal'' \<mapsto> PyBool False,
              ''log_payload_excerpt'' \<mapsto> PyBool False,
              ''log_payload_record'' \<mapsto> PyBool False,
              ''log_severity'' \<mapsto> PyInt (- 1)]\<rparr>"

definition log_accounting_info_mode :: "NestedDict \<Rightarrow> pyval option" where
  "log_accounting_info_mode lo = get_key lo ''log_accounting_info_mode''"

definition log_accounting_info_mode_setter :: "pyval \<Rightarrow> NestedDict \<Rightarrow> NestedDict" where
  "log_accounting_info_mode_setter v lo = update_key ''log_accounting_info_mode'' v lo"

definition log_level :: "NestedDict \<Rightarrow> pyval option" where
  "log_level lo = get_key lo ''log_level''"

definition log_level_setter :: "pyval \<Rightarrow> NestedDict \<Rightarrow> NestedDict" where
  "log_level_setter v lo =
     (let lo1 = (if v \<in> set (map PyStr [''none'', ''stored'', ''transient'', ''essential'', ''alert''])
                 then update_key ''log_level'' v lo else lo)
      in if \<not> truthy_opt (log_accounting_info_mode lo1)
         then log_accounting_info_mode_setter (PyBool True) lo1
         else lo1)"

section \<open>Element filters (\<^verbatim>\<open>get_element_filters\<close>, session.py)\<close>









section \<open>Example inputs\<close>

text \<open>
  Concrete values on which the theorems below are evaluated. In the examples a version
  is a rational number and is printed with one decimal.
\<close>

definition str_example :: "rat \<Rightarrow> string" where
  "str_example v = (if v = 13 / 2 then ''6.5'' else if v = 61 / 10 then ''6.1''
                    else if v = 31 / 5 then ''6.2'' else ''?'')"



text \<open>
  A stand-in for Python's \<^verbatim>\<open>float\<close> on plain decimal identifiers (digits, then
  optionally a point and more digits): the rational number that the identifier denotes.
  Python rounds that number to a double, which keeps the order of the identifiers.
\<close>

definition digit_of :: "char \<Rightarrow> nat option" where
  "digit_of c =
     (let n = (of_char c :: nat) in if 48 \<le> n \<and> n \<le> 57 then Some (n - 48) else None)"

fun digits_of :: "string \<Rightarrow> nat \<Rightarrow> nat option" where
  "digits_of [] acc = Some acc"
| "digits_of (c # cs) acc =
     (case digit_of c of None \<Rightarrow> None | Some d \<Rightarrow> digits_of cs (10 * acc + d))"

definition decimal_float :: "string \<Rightarrow> rat option" where
  "decimal_float s =
     (let ip = takeWhile (\<lambda>c. c \<noteq> CHR ''.'') s;
          rest = dropWhile (\<lambda>c. c \<noteq> CHR ''.'') s
      in if ip = [] then None
         else case digits_of ip 0 of
                None \<Rightarrow> None
              | Some i \<Rightarrow>
                  (case rest of
                     [] \<Rightarrow> Some (of_nat i)
                   | _ # fp \<Rightarrow>
                       (case digits_of fp 0 of
                          None \<Rightarrow> None
                        | Some f \<Rightarrow> Some (of_nat i + of_nat f / 10 ^ length fp))))"

text \<open>
  A server at \<^verbatim>\<open>http://smc\<close> that advertises the versions 6.1, 6.2 and 6.5, serves
  the entry points of 6.5 and accepts the key \<^verbatim>\<open>K\<close>. The bodies are named rather
  than spelled out; \<open>json_loads\<close> of the example maps the names to the parsed documents.
\<close>

definition entries_smc :: "entry list" where
  "entries_smc =
     [[''rel'' \<mapsto> ''login'', ''href'' \<mapsto> ''http://smc/6.5/login''],
      [''rel'' \<mapsto> ''logout'', ''href'' \<mapsto> ''http://smc/6.5/logout''],
      [''rel'' \<mapsto> ''elements'', ''href'' \<mapsto> ''http://smc/6.5/elements''],
      [''rel'' \<mapsto> ''host'', ''href'' \<mapsto> ''http://smc/6.5/elements/host''],
      [''rel'' \<mapsto> ''network'', ''href'' \<mapsto> ''http://smc/6.5/elements/network''],
      [''rel'' \<mapsto> ''group'', ''href'' \<mapsto> ''http://smc/6.5/elements/group'']]"


definition versions_smc :: "entry list" where
  "versions_smc = [[''rel'' \<mapsto> ''6.1''], [''rel'' \<mapsto> ''6.2''], [''rel'' \<mapsto> ''6.5'']]"

definition env_example :: "rat env" where
  "env_example =
     \<lparr>requests_get = (\<lambda>u t.
         if u = ''http://smc/api'' then Inr \<lparr>status_code = 200, body = ''versions''\<rparr>
         else if u = ''http://smc/6.5/api'' then Inr \<lparr>status_code = 200, body = ''entries''\<rparr>
         else Inl ''connection refused''),
      json_loads = (\<lambda>b.
         if b = ''versions'' then Some [''version'' \<mapsto> versions_smc]
         else if b = ''entries'' then Some [''entry_point'' \<mapsto> entries_smc]
         else None),
      py_float = decimal_float,
      py_str = str_example,
      session_post = (\<lambda>u k.
         if u = ''http://smc/6.5/login'' \<and> k = Some ''K'' then Inr (200, Transport ''cookie'')
         else Inr (401, Transport [])),
      session_put = (\<lambda>t u. if t = Transport ''cookie'' then Inr 204 else Inr 401),
      load_from_file = Inl (ConfigLoadError ''no configuration file'')\<rparr>"

text \<open>The same server after the transport session expired: a PUT is answered with 401.\<close>

definition env_expired :: "rat env" where
  "env_expired = env_example\<lparr>session_put := (\<lambda>t u. Inr 401)\<rparr>"

definition session_example :: "rat Session" where
  "session_example =
     \<lparr>p_cache = Some \<lparr>api_entry = Some entries_smc, api_version = Some (13 / 2)\<rparr>,
      p_session = Some (Transport ''cookie''), p_connection = True,
      p_url = Some ''http://smc'', p_api_key = Some ''K'', p_timeout = 10, http_401 = 0\<rparr>"
text \<open>The same server when it rejects the key: the login POST is answered with 401.\<close>

definition env_rejecting :: "rat env" where
  "env_rejecting = env_example\<lparr>session_post := (\<lambda>u k. Inr (401, Transport []))\<rparr>"

section \<open>Properties of the entry point cache\<close>







section \<open>Properties of the session\<close>

lemma cache_http_401 [simp]: "http_401 (snd (cache s)) = http_401 s"
  by (simp add: cache_def split: option.splits)

lemma cache_p_session [simp]: "p_session (snd (cache s)) = p_session s"
  by (simp add: cache_def split: option.splits)

lemma cache_p_url [simp]: "p_url (snd (cache s)) = p_url s"
  by (simp add: cache_def split: option.splits)

lemma cache_p_api_key [simp]: "p_api_key (snd (cache s)) = p_api_key s"
  by (simp add: cache_def split: option.splits)

lemma login_connect_http_401: "http_401 (snd (login_connect env v s)) = http_401 s"
proof -
  obtain c s1 where cs: "cache s = (c, s1)" by (cases "cache s")
  then have h: "http_401 s1 = http_401 s" using cache_http_401 [of s] by simp
  obtain r c' where g: "get_api_entry env c (p_url s1) v (p_timeout s1) = (r, c')"
    by (cases "get_api_entry env c (p_url s1) v (p_timeout s1)")
  show ?thesis
    by (simp add: login_connect_def cs g h Let_def split: sum.splits prod.splits)
qed

lemma login_connect_p_session:
  assumes "p_session s \<noteq> None"
  shows "p_session (snd (login_connect env v s)) \<noteq> None"
proof -
  obtain c s1 where cs: "cache s = (c, s1)" by (cases "cache s")
  then have h: "p_session s1 \<noteq> None" using cache_p_session [of s] assms by simp
  obtain r c' where g: "get_api_entry env c (p_url s1) v (p_timeout s1) = (r, c')"
    by (cases "get_api_entry env c (p_url s1) v (p_timeout s1)")
  show ?thesis
    using h by (simp add: login_connect_def cs g Let_def split: sum.splits prod.splits)
qed


lemma login_keeps:
  assumes "login env url k v t s = Some y"
  shows "http_401 (snd y) = http_401 s \<and> (p_session s \<noteq> None \<longrightarrow> p_session (snd y) \<noteq> None)"
  using assms
proof (induction rule: login.raw_induct [rotated, consumes 1])
  case (1 login env url k v t s y)
  show ?case
  proof (cases "truthy_str url \<and> truthy_str k")
    case True
    with 1(2) have "y = login_connect env v
                (s\<lparr>p_url := url, p_api_key := k,
                   p_timeout := (if truthy_int t then the t else p_timeout s)\<rparr>)"
      by simp
    then show ?thesis
      using login_connect_http_401 [of env v] login_connect_p_session [of _ env v] by simp
  next
    case False
    show ?thesis
    proof (cases "load_from_file env")
      case (Inl e)
      with False 1(2) show ?thesis by auto
    next
      case (Inr a)
      with False 1(2) obtain r s' where
        rec: "login env (arg_url a) (arg_api_key a) (arg_api_version a) (arg_timeout a) s = Some (r, s')"
        and y: "(case r of Inl e \<Rightarrow> Some (Inl e, s') | Inr _ \<Rightarrow> Some (login_connect env v s')) = Some y"
        by (auto simp: bind_eq_Some_conv)
      from 1(1) [OF rec] have ih: "http_401 s' = http_401 s"
        "p_session s \<noteq> None \<longrightarrow> p_session s' \<noteq> None" by simp_all
      show ?thesis
      proof (cases r)
        case (Inl e)
        with y ih show ?thesis by auto
      next
        case (Inr u)
        with y have "y = login_connect env v s'" by simp
        with ih show ?thesis
          using login_connect_http_401 [of env v s'] login_connect_p_session [of s' env v] by simp
      qed
    qed
  qed
qed
lemma py_max_Max: "xs \<noteq> [] \<Longrightarrow> py_max xs = Some (Max (set xs))"
proof (cases xs)
  case Nil
  then show "xs \<noteq> [] \<Longrightarrow> py_max xs = Some (Max (set xs))" by simp
next
  case (Cons x ys)
  have "(\<lambda>item m. if m < item then item else m) = (max :: 'a \<Rightarrow> 'a \<Rightarrow> 'a)"
    by (auto simp: fun_eq_iff max_def)
  then show ?thesis
    using Cons Max.set_eq_fold [of x ys] by simp
qed

lemma version_rels_map:
  "map (\<lambda>v. v ''rel'') vs = map Some ids \<Longrightarrow> version_rels vs = Inr ids"
  by (induction vs arbitrary: ids) auto

lemma floats_map: "map f ids = map Some fs \<Longrightarrow> floats f ids = Inr fs"
  by (induction ids arbitrary: fs) auto

lemma get_entry_href_Inr_indep:
  "get_entry_href f c verb = Inr h \<Longrightarrow> get_entry_href g c verb = Inr h"
  by (auto simp: get_entry_href_def Let_def split: option.splits if_splits)

lemma get_entry_href_Inr_cache:
  "get_entry_href f (fst (cache s)) verb = Inr h \<Longrightarrow> cache s = (the (p_cache s), s)"
  by (auto simp: cache_def get_entry_href_def new_SessionCache_def split: option.splits)

lemma http_unauthorized_unfold:
  "http_unauthorized env s =
     (if p_session s \<noteq> None then
        if http_401 s + 1 \<ge> 2
        then Some (Inl (SMCConnectionError too_many_401_msg), s\<lparr>http_401 := http_401 s + 1\<rparr>)
        else login env (p_url s) (p_api_key s) (api_version (fst (cache s))) None
               (snd (cache (s\<lparr>http_401 := http_401 s + 1\<rparr>)))
      else Some (Inl (SMCConnectionError no_previous_session_msg),
                 s\<lparr>http_401 := http_401 s + 1\<rparr>))"
  by (simp add: http_unauthorized_def Let_def cache_def split: option.splits prod.splits)

text \<open>
  C2 (amended): for a session that has been established and whose failure counter is 0,
  the first call of \<^verbatim>\<open>http_unauthorized\<close> re-invokes \<^verbatim>\<open>login\<close> with the stored
  address, credential and version, on the session with the counter at 1. Once that call
  has returned, with or without a successful login, the second call fails with
  \<^verbatim>\<open>SMCConnectionError\<close> ("Too many HTTP 401 requests") without invoking \<^verbatim>\<open>login\<close>,
  and so does the third.
\<close>

theorem http_unauthorized_threshold:
  assumes "p_session s \<noteq> None" and "http_401 s = 0"
      and "http_unauthorized env1 s = Some (r1, s1)"
  shows "http_unauthorized env1 s =
           login env1 (p_url s) (p_api_key s) (api_version (fst (cache s))) None
             (snd (cache (s\<lparr>http_401 := 1\<rparr>)))
       \<and> http_unauthorized env2 s1 =
           Some (Inl (SMCConnectionError too_many_401_msg), s1\<lparr>http_401 := 2\<rparr>)
       \<and> http_unauthorized env3 (s1\<lparr>http_401 := 2\<rparr>) =
           Some (Inl (SMCConnectionError too_many_401_msg), s1\<lparr>http_401 := 3\<rparr>)"
proof -
  have first: "http_unauthorized env1 s =
           login env1 (p_url s) (p_api_key s) (api_version (fst (cache s))) None
             (snd (cache (s\<lparr>http_401 := 1\<rparr>)))"
    using assms(1,2) by (simp add: http_unauthorized_unfold)
  with assms(3) have "http_401 (snd (r1, s1)) = http_401 (snd (cache (s\<lparr>http_401 := 1\<rparr>)))
      \<and> (p_session (snd (cache (s\<lparr>http_401 := 1\<rparr>))) \<noteq> None \<longrightarrow> p_session (snd (r1, s1)) \<noteq> None)"
    using login_keeps by metis
  with assms(1) have s1: "http_401 s1 = 1" "p_session s1 \<noteq> None"
    by simp_all
  have second: "http_unauthorized env2 s1 =
           Some (Inl (SMCConnectionError too_many_401_msg), s1\<lparr>http_401 := 2\<rparr>)"
    using s1 by (simp add: http_unauthorized_unfold)
  have third: "http_unauthorized env3 (s1\<lparr>http_401 := 2\<rparr>) =
           Some (Inl (SMCConnectionError too_many_401_msg), s1\<lparr>http_401 := 3\<rparr>)"
    using s1 by (simp add: http_unauthorized_unfold)
  from first second third show ?thesis by simp
qed

lemma logout_state: "snd (logout env s) = snd (cache s) \<or> snd (logout env s) = s"
proof -
  obtain c s1 where cs: "cache s = (c, s1)" by (cases "cache s")
  show ?thesis
    by (simp add: logout_def cs split: option.splits sum.splits)
qed

lemma http_unauthorized_keeps:
  assumes "http_unauthorized env s = Some (r, s')"
  shows "http_401 s' = http_401 s + 1 \<and> (p_session s \<noteq> None \<longrightarrow> p_session s' \<noteq> None)"
proof (cases "p_session s \<noteq> None \<and> \<not> http_401 s + 1 \<ge> 2")
  case True
  with assms have "login env (p_url s) (p_api_key s) (api_version (fst (cache s))) None
             (snd (cache (s\<lparr>http_401 := http_401 s + 1\<rparr>))) = Some (r, s')"
    by (simp add: http_unauthorized_unfold)
  from login_keeps [OF this] show ?thesis by simp
next
  case False
  with assms show ?thesis
    by (auto simp: http_unauthorized_unfold split: if_splits)
qed

lemma http_unauthorized_Inr:
  assumes "http_unauthorized env s = Some (Inr u, s')"
  shows "p_session s \<noteq> None \<and> http_401 s < 1"
proof (rule ccontr)
  assume "\<not> (p_session s \<noteq> None \<and> http_401 s < 1)"
  then have "\<exists>e t. http_unauthorized env s = Some (Inl e, t)"
    by (auto simp: http_unauthorized_unfold)
  with assms show False by auto
qed

text \<open>
  C3 (amended): no operation of the session resets the failure counter. \<^verbatim>\<open>login\<close>
  and \<^verbatim>\<open>logout\<close> leave it unchanged and every call of \<^verbatim>\<open>http_unauthorized\<close>
  that returns has added one to it, also when the login it performed succeeded. So after
  a single failure followed by a successful re-login the counter is 1, and the next call
  of \<^verbatim>\<open>http_unauthorized\<close> fails with \<^verbatim>\<open>SMCConnectionError\<close>.
\<close>

theorem http_401_never_reset:
  "(login env url k v t s = Some (r, s') \<longrightarrow> http_401 s' = http_401 s)
   \<and> (http_unauthorized env s = Some (r, s') \<longrightarrow> http_401 s' = http_401 s + 1)
   \<and> http_401 (snd (logout env s)) = http_401 s
   \<and> (0 \<le> http_401 s \<and> http_unauthorized env s = Some (Inr (), s')
        \<longrightarrow> http_unauthorized env' s' =
              Some (Inl (SMCConnectionError too_many_401_msg), s'\<lparr>http_401 := 2\<rparr>))"
proof (intro conjI impI)
  assume "login env url k v t s = Some (r, s')"
  from login_keeps [OF this] show "http_401 s' = http_401 s" by simp
next
  assume "http_unauthorized env s = Some (r, s')"
  from http_unauthorized_keeps [OF this] show "http_401 s' = http_401 s + 1" by simp
next
  show "http_401 (snd (logout env s)) = http_401 s"
    using logout_state [of env s] cache_http_401 [of s] by auto
next
  assume a: "0 \<le> http_401 s \<and> http_unauthorized env s = Some (Inr (), s')"
  then have h: "http_unauthorized env s = Some (Inr (), s')" by simp
  from http_unauthorized_Inr [OF h] a have "http_401 s = 0" "p_session s \<noteq> None" by simp_all
  with http_unauthorized_keeps [OF h] have "http_401 s' = 1" "p_session s' \<noteq> None" by simp_all
  then show "http_unauthorized env' s' =
              Some (Inl (SMCConnectionError too_many_401_msg), s'\<lparr>http_401 := 2\<rparr>)"
    by (simp add: http_unauthorized_unfold)
qed

text \<open>
  C9: for an established session whose directory resolves the relation \<^verbatim>\<open>logout\<close>,
  and a transport that answers the PUT, \<^verbatim>\<open>logout\<close> raises nothing whatever the
  status is: 204 is logged as a success, 401 and every other status as an error. The
  session is left as it was, so a second \<^verbatim>\<open>logout\<close> in succession raises nothing
  either, whatever status it observes.
\<close>

theorem logout_never_raises:
  assumes "p_session s = Some t"
      and "get_entry_href (py_str env1) (fst (cache s)) ''logout'' = Inr href"
      and "session_put env1 t href = Inr status1"
      and "session_put env2 t href = Inr status2"
  shows "logout env1 s =
           (Inr [if status1 = 204 then LogInfo ''Logged out successfully''
                 else if status1 = 401 then LogError (logout_expired_msg status1)
                 else LogError (logout_failed_msg status1)], s)
       \<and> logout env2 (snd (logout env1 s)) =
           (Inr [if status2 = 204 then LogInfo ''Logged out successfully''
                 else if status2 = 401 then LogError (logout_expired_msg status2)
                 else LogError (logout_failed_msg status2)], s)"
proof -
  from assms(2) have c: "cache s = (the (p_cache s), s)"
    by (rule get_entry_href_Inr_cache)
  with assms(2) have h1: "get_entry_href (py_str env1) (the (p_cache s)) ''logout'' = Inr href"
    by simp
  then have h2: "get_entry_href (py_str env2) (the (p_cache s)) ''logout'' = Inr href"
    by (rule get_entry_href_Inr_indep)
  have one: "logout env1 s =
           (Inr [if status1 = 204 then LogInfo ''Logged out successfully''
                 else if status1 = 401 then LogError (logout_expired_msg status1)
                 else LogError (logout_failed_msg status1)], s)"
    using assms(1,3) c h1 by (simp add: logout_def)
  have two: "logout env2 s =
           (Inr [if status2 = 204 then LogInfo ''Logged out successfully''
                 else if status2 = 401 then LogError (logout_expired_msg status2)
                 else LogError (logout_failed_msg status2)], s)"
    using assms(1,4) c h2 by (simp add: logout_def)
  from one two show ?thesis by simp
qed

text \<open>
  C4: when \<^verbatim>\<open>login\<close> is called with an address and a credential and without a
  version, and version discovery returns a non-empty list of identifiers that all
  parse, the version discovered is the maximum of the parsed identifiers; once the
  versioned root answers with status 200 and a JSON body, that maximum is the
  \<^verbatim>\<open>api_version\<close> of the cache after \<^verbatim>\<open>login\<close>. For the identifiers 6.1, 6.2
  and 6.5 it is 6.5, as evaluated below.
\<close>

theorem login_negotiates_maximum:
  assumes "u \<noteq> []" and "k \<noteq> []"
      and "t = (if truthy_int timeout then the timeout else p_timeout s)"
      and "requests_get env (u @ ''/api'') t = Inr r"
      and "json_loads env (body r) = Some j"
      and "j ''version'' = Some vs"
      and "map (\<lambda>v. v ''rel'') vs = map Some ids"
      and "map (py_float env) ids = map Some fs"
      and "ids \<noteq> []"
      and "requests_get env (u @ ''/'' @ py_str env (Max (set fs)) @ ''/api'') t = Inr r2"
      and "status_code r2 = 200"
      and "json_loads env (body r2) = Some j2"
  shows "discover_version env (Some u) t = Inr (Max (set fs))
       \<and> (\<exists>res s' c. login env (Some u) (Some k) None timeout s = Some (res, s') \<and>
              p_cache s' = Some c \<and> api_version c = Some (Max (set fs)))"
proof -
  from assms(8,9) have "fs \<noteq> []" by auto
  then have m: "py_max fs = Some (Max (set fs))" by (rule py_max_Max)
  have d: "discover_version env (Some u) t = Inr (Max (set fs))"
    using assms(4,5,6) version_rels_map [OF assms(7)] floats_map [OF assms(8)] m
    by (simp add: discover_version_def percent_s_def)
  define s0 where "s0 = s\<lparr>p_url := Some u, p_api_key := Some k, p_timeout := t\<rparr>"
  obtain c0 s1 where cs: "cache s0 = (c0, s1)" by (cases "cache s0")
  then have s1: "p_url s1 = Some u" "p_timeout s1 = t"
    using cache_p_url [of s0] by (auto simp: s0_def cache_def split: option.splits)
  obtain res1 c1 where g: "get_api_entry env c0 (Some u) None t = (res1, c1)"
    by (cases "get_api_entry env c0 (Some u) None t")
  have v: "api_version c1 = Some (Max (set fs))"
    using g d assms(10,11,12)
    by (auto simp: get_api_entry_def Let_def split: option.splits)
  have "\<exists>res s'. login_connect env None s0 = (res, s') \<and> p_cache s' = Some c1"
    by (simp add: login_connect_def cs s1 g Let_def split: sum.splits prod.splits)
  then obtain res s' where "login_connect env None s0 = (res, s')" "p_cache s' = Some c1"
    by blast
  moreover have "login env (Some u) (Some k) None timeout s = Some (login_connect env None s0)"
    using assms(1,2,3) by (subst login.simps) (simp add: truthy_str_def s0_def)
  ultimately show ?thesis using d v by simp
qed

lemma relogin_example:
  "login env_example (Some ''http://smc'') (Some ''K'') (Some (13 / 2)) None
     (session_example\<lparr>http_401 := n\<rparr>) = Some (Inr (), session_example\<lparr>http_401 := n\<rparr>)"
  by (subst login.simps)
     (simp add: truthy_str_def truthy_int_def login_connect_def cache_def get_api_entry_def
        env_example_def str_example_def get_entry_href_def entries_smc_def session_example_def)

lemma relogin_rejected_example:
  "login env_rejecting (Some ''http://smc'') (Some ''K'') (Some (13 / 2)) None
     (session_example\<lparr>http_401 := n\<rparr>) =
   Some (Inl (SMCConnectionError ''Login failed, HTTP status code: 401''),
         session_example\<lparr>http_401 := n\<rparr>)"
  by (subst login.simps)
     (simp add: truthy_str_def truthy_int_def login_connect_def cache_def get_api_entry_def
        env_example_def env_rejecting_def str_example_def get_entry_href_def entries_smc_def
        session_example_def login_failed_msg_def str_int_def str_nat.simps digit_def)

lemma session_example_fields:
  "p_session session_example = Some (Transport ''cookie'')"
  "http_401 session_example = 0"
  "p_url session_example = Some ''http://smc''"
  "p_api_key session_example = Some ''K''"
  "cache (session_example\<lparr>http_401 := n\<rparr>) =
     (\<lparr>api_entry = Some entries_smc, api_version = Some (13 / 2)\<rparr>,
      session_example\<lparr>http_401 := n\<rparr>)"
  "cache session_example =
     (\<lparr>api_entry = Some entries_smc, api_version = Some (13 / 2)\<rparr>, session_example)"
  by (simp_all add: session_example_def cache_def)

text \<open>
  C2, as stated, fails at the second call. The first call on the example session
  re-invokes \<^verbatim>\<open>login\<close>, which the server rejects; the second call raises
  \<^verbatim>\<open>SMCConnectionError\<close> at once, although the \<^verbatim>\<open>login\<close> that the claim expects
  there would have succeeded.
\<close>

theorem http_unauthorized_threshold_counterexample:
  "http_unauthorized env_rejecting session_example =
     Some (Inl (SMCConnectionError ''Login failed, HTTP status code: 401''),
           session_example\<lparr>http_401 := 1\<rparr>)
   \<and> http_unauthorized env_example (session_example\<lparr>http_401 := 1\<rparr>) =
     Some (Inl (SMCConnectionError too_many_401_msg), session_example\<lparr>http_401 := 2\<rparr>)
   \<and> login env_example (Some ''http://smc'') (Some ''K'') (Some (13 / 2)) None
       (session_example\<lparr>http_401 := 2\<rparr>) =
     Some (Inr (), session_example\<lparr>http_401 := 2\<rparr>)"
  using relogin_rejected_example [of 1] relogin_example [of 2]
  by (simp add: http_unauthorized_unfold session_example_fields)

theorem http_unauthorized_threshold_witness:
  "http_unauthorized env_rejecting session_example =
     login env_rejecting (Some ''http://smc'') (Some ''K'') (Some (13 / 2)) None
       (session_example\<lparr>http_401 := 1\<rparr>)
   \<and> http_unauthorized env_example (session_example\<lparr>http_401 := 1\<rparr>) =
     Some (Inl (SMCConnectionError too_many_401_msg), session_example\<lparr>http_401 := 2\<rparr>)
   \<and> http_unauthorized env_example (session_example\<lparr>http_401 := 2\<rparr>) =
     Some (Inl (SMCConnectionError too_many_401_msg), session_example\<lparr>http_401 := 3\<rparr>)"
proof -
  have a: "p_session session_example \<noteq> None" and b: "http_401 session_example = 0"
    by (simp_all add: session_example_fields)
  have c: "http_unauthorized env_rejecting session_example =
     Some (Inl (SMCConnectionError ''Login failed, HTTP status code: 401''),
           session_example\<lparr>http_401 := 1\<rparr>)"
    using relogin_rejected_example [of 1]
    by (simp add: http_unauthorized_unfold session_example_fields)
  from http_unauthorized_threshold [OF a b c, of env_example env_example]
  show ?thesis by (simp add: session_example_fields)
qed

text \<open>
  C3, as stated, fails on the example session: the login performed by
  \<^verbatim>\<open>http_unauthorized\<close> succeeds and leaves the counter at 1, not 0, and the next
  isolated failure hits the threshold.
\<close>

theorem http_401_reset_counterexample:
  "http_unauthorized env_example session_example =
     Some (Inr (), session_example\<lparr>http_401 := 1\<rparr>)
   \<and> http_401 (session_example\<lparr>http_401 := 1\<rparr>) = 1
   \<and> http_unauthorized env_example (session_example\<lparr>http_401 := 1\<rparr>) =
     Some (Inl (SMCConnectionError too_many_401_msg), session_example\<lparr>http_401 := 2\<rparr>)"
  using relogin_example [of 1]
  by (simp add: http_unauthorized_unfold session_example_fields)

theorem http_401_never_reset_witness:
  "http_401 (session_example\<lparr>http_401 := 1\<rparr>) = http_401 session_example + 1
   \<and> http_401 (snd (logout env_example session_example)) = 0
   \<and> http_unauthorized env_example (session_example\<lparr>http_401 := 1\<rparr>) =
     Some (Inl (SMCConnectionError too_many_401_msg), session_example\<lparr>http_401 := 2\<rparr>)"
proof -
  have l: "login env_example (Some ''http://smc'') (Some ''K'') (Some (13 / 2)) None
     (session_example\<lparr>http_401 := 1\<rparr>) = Some (Inr (), session_example\<lparr>http_401 := 1\<rparr>)"
    by (rule relogin_example)
  have h: "http_unauthorized env_example session_example =
     Some (Inr (), session_example\<lparr>http_401 := 1\<rparr>)"
    using l by (simp add: http_unauthorized_unfold session_example_fields)
  have z: "0 \<le> http_401 session_example"
    by (simp add: session_example_fields)
  from http_401_never_reset [of env_example "Some ''http://smc''" "Some ''K''" "Some (13 / 2)"
      None "session_example\<lparr>http_401 := 1\<rparr>" "Inr ()" "session_example\<lparr>http_401 := 1\<rparr>"
      env_example] l
  have "http_401 (snd (logout env_example (session_example\<lparr>http_401 := 1\<rparr>))) = 1"
    by simp
  from http_401_never_reset [of env_example "Some ''http://smc''" "Some ''K''" "Some (13 / 2)"
      None session_example "Inr ()" "session_example\<lparr>http_401 := 1\<rparr>" env_example] h z
  show ?thesis by (simp add: session_example_fields)
qed

theorem logout_never_raises_witness:
  "logout env_example session_example =
     (Inr [LogInfo ''Logged out successfully''], session_example)
   \<and> logout env_expired (snd (logout env_example session_example)) =
     (Inr [LogError ''Logout failed, session has already expired, status code: 401''],
      session_example)"
proof -
  have a: "p_session session_example = Some (Transport ''cookie'')"
    by (simp add: session_example_fields)
  have b: "get_entry_href (py_str env_example) (fst (cache session_example)) ''logout'' =
             Inr ''http://smc/6.5/logout''"
    by (simp add: session_example_fields get_entry_href_def entries_smc_def truthy_str_def)
  have c: "session_put env_example (Transport ''cookie'') ''http://smc/6.5/logout'' = Inr 204"
    by (simp add: env_example_def)
  have d: "session_put env_expired (Transport ''cookie'') ''http://smc/6.5/logout'' = Inr 401"
    by (simp add: env_expired_def)
  note t = logout_never_raises [OF a b c d]
  from t have one: "logout env_example session_example =
     (Inr [LogInfo ''Logged out successfully''], session_example)"
    by simp
  from t have two: "logout env_expired (snd (logout env_example session_example)) =
     (Inr [LogError ''Logout failed, session has already expired, status code: 401''],
      session_example)"
    by (simp add: one logout_expired_msg_def str_int_def str_nat.simps digit_def)
  from one two show ?thesis ..
qed

theorem login_negotiates_maximum_witness:
  "discover_version env_example (Some ''http://smc'') 10 = Inr (13 / 2)
   \<and> (\<exists>res s' c. login env_example (Some ''http://smc'') (Some ''K'') None None new_Session
                    = Some (res, s') \<and>
                  p_cache s' = Some c \<and> api_version c = Some (13 / 2))"
proof -
  have m: "Max (set [61 / 10, 31 / 5, 13 / 2 :: rat]) = 13 / 2"
    by simp
  have t: "(10::int) = (if truthy_int None then the None else p_timeout (new_Session :: rat Session))"
    by (simp add: truthy_int_def new_Session_def)
  have g1: "requests_get env_example (''http://smc'' @ ''/api'') 10 =
              Inr \<lparr>status_code = 200, body = ''versions''\<rparr>"
    by (simp add: env_example_def)
  have j1: "json_loads env_example (body \<lparr>status_code = 200, body = ''versions''\<rparr>) =
              Some [''version'' \<mapsto> versions_smc]"
    by (simp add: env_example_def)
  have v: "[''version'' \<mapsto> versions_smc] ''version'' = Some versions_smc"
    by simp
  have ids: "map (\<lambda>v. v ''rel'') versions_smc = map Some [''6.1'', ''6.2'', ''6.5'']"
    by (simp add: versions_smc_def)
  have fs: "map (py_float env_example) [''6.1'', ''6.2'', ''6.5''] =
              map Some [61 / 10, 31 / 5, 13 / 2]"
    by (simp add: env_example_def decimal_float_def digit_of_def)
  have g2: "requests_get env_example
              (''http://smc'' @ ''/'' @ py_str env_example (Max (set [61 / 10, 31 / 5, 13 / 2])) @ ''/api'') 10 =
              Inr \<lparr>status_code = 200, body = ''entries''\<rparr>"
    unfolding m by (simp add: env_example_def str_example_def)
  have j2: "json_loads env_example (body \<lparr>status_code = 200, body = ''entries''\<rparr>) =
              Some [''entry_point'' \<mapsto> entries_smc]"
    by (simp add: env_example_def)
  from login_negotiates_maximum [where k = "''K''" and s = new_Session and timeout = None,
      OF _ _ t g1 j1 v ids fs _ g2 _ j2]
  show ?thesis unfolding m by simp
qed

section \<open>Properties of the rule fields and the log options\<close>

lemma typeof_not_marker [simp]:
  "typeof w \<noteq> ''any''" "typeof w \<noteq> ''none''"
  "''any'' \<noteq> typeof w" "''none'' \<noteq> typeof w"
  by (simp_all add: typeof_def split: rule_field.splits)

lemma typeof_data_update [simp]: "typeof (w\<lparr>data := d\<rparr>) = typeof w"
  by (simp add: typeof_def)

lemma typeof_update_key [simp]: "typeof (update_key k v w) = typeof w"
  by (simp add: typeof_def update_key_def)

lemma typeof_clear [simp]: "typeof (clear w) = typeof w"
  by (simp add: typeof_def clear_def)

lemma data_marker_cleared:
  "data (update_key (typeof w) (PyList xs) (clear w)) = [typeof w \<mapsto> PyList xs]"
  by (simp add: update_key_def clear_def)

lemma forms_of_cleared:
  "\<not> is_any (update_key (typeof w) (PyList xs) (clear w))"
  "\<not> is_none (update_key (typeof w) (PyList xs) (clear w))"
  "has_list (update_key (typeof w) (PyList xs) (clear w))"
  by (simp_all add: is_any_def is_none_def has_list_def contains_key_def get_key_def
      update_key_def clear_def)

lemma add_marker_state:
  assumes "is_none w \<or> is_any w"
  shows "add r x w =
     (case r x of
        Inr href \<Rightarrow> (Inr (), update_key (typeof w) (PyList [href]) (clear w))
      | Inl ElementNotFound \<Rightarrow> (Inr (), update_key (typeof w) (PyList []) (clear w))
      | Inl e \<Rightarrow> (Inl e, update_key (typeof w) (PyList []) (clear w)))"
  using assms
  by (simp add: add_def get_key_def update_key_def clear_def
      split: sum.splits error.splits)

lemma add_keeps_markers_off:
  assumes "\<not> is_none w" and "\<not> is_any w"
  shows "\<not> is_none (snd (add r x w)) \<and> \<not> is_any (snd (add r x w))"
  using assms
  by (auto simp: add_def get_key_def update_key_def is_none_def is_any_def contains_key_def
      split: option.splits pyval.splits sum.splits error.splits)

text \<open>
  C5: for every wrapper state, after \<^verbatim>\<open>set_any\<close>, \<^verbatim>\<open>set_none\<close>, \<^verbatim>\<open>add\<close> or
  \<^verbatim>\<open>add_many\<close> at most one of the three forms is active. \<^verbatim>\<open>set_any\<close> and
  \<^verbatim>\<open>set_none\<close> leave the marker alone in the data, whatever list was there; after
  \<^verbatim>\<open>add\<close> and \<^verbatim>\<open>add_many\<close> no marker is set. In a marker state \<^verbatim>\<open>add\<close> leaves an
  explicit list, which is the one-element list of the item's address when the item
  resolves, and \<^verbatim>\<open>add_many([])\<close> leaves the empty explicit list; \<^verbatim>\<open>set_any\<close> followed
  by \<^verbatim>\<open>add\<close> of a resolvable item yields the one-element list.
\<close>

theorem one_form_active:
  "(is_any (set_any w) \<and> \<not> is_none (set_any w) \<and> \<not> has_list (set_any w) \<and>
      data (set_any w) = [''any'' \<mapsto> PyBool True])
   \<and> (is_none (set_none w) \<and> \<not> is_any (set_none w) \<and> \<not> has_list (set_none w) \<and>
      data (set_none w) = [''none'' \<mapsto> PyBool True])
   \<and> \<not> is_any (snd (add r x w)) \<and> \<not> is_none (snd (add r x w))
   \<and> (\<not> is_any (add_many r xs w) \<and> \<not> is_none (add_many r xs w) \<and> has_list (add_many r xs w))
   \<and> (is_any w \<or> is_none w \<longrightarrow>
        has_list (snd (add r x w)) \<and>
        (\<forall>h. r x = Inr h \<longrightarrow>
           add r x w = (Inr (), w\<lparr>data := [typeof w \<mapsto> PyList [h]]\<rparr>)) \<and>
        add_many r [] w = w\<lparr>data := [typeof w \<mapsto> PyList []]\<rparr>)
   \<and> (\<forall>h. r x = Inr h \<longrightarrow>
        add r x (set_any w) = (Inr (), w\<lparr>data := [typeof w \<mapsto> PyList [h]]\<rparr>))"
proof -
  have a: "is_any (set_any w) \<and> \<not> is_none (set_any w) \<and> \<not> has_list (set_any w) \<and>
      data (set_any w) = [''any'' \<mapsto> PyBool True]"
    by (simp add: set_any_def is_any_def is_none_def has_list_def contains_key_def get_key_def
        update_key_def clear_def)
  have b: "is_none (set_none w) \<and> \<not> is_any (set_none w) \<and> \<not> has_list (set_none w) \<and>
      data (set_none w) = [''none'' \<mapsto> PyBool True]"
    by (simp add: set_none_def is_any_def is_none_def has_list_def contains_key_def get_key_def
        update_key_def clear_def)
  have c: "\<not> is_any (snd (add r x w)) \<and> \<not> is_none (snd (add r x w))"
  proof (cases "is_none w \<or> is_any w")
    case True
    then show ?thesis
      using forms_of_cleared [of w]
      by (auto simp: add_marker_state [OF True] split: sum.splits error.splits)
  next
    case False
    then show ?thesis using add_keeps_markers_off [of w r x] by simp
  qed
  have d: "\<not> is_any (add_many r xs w) \<and> \<not> is_none (add_many r xs w) \<and> has_list (add_many r xs w)"
    by (simp add: add_many_def Let_def is_any_def is_none_def has_list_def contains_key_def
        get_key_def update_key_def clear_def)
  have e: "has_list (snd (add r x w)) \<and>
        (\<forall>h. r x = Inr h \<longrightarrow>
           add r x w = (Inr (), w\<lparr>data := [typeof w \<mapsto> PyList [h]]\<rparr>)) \<and>
        add_many r [] w = w\<lparr>data := [typeof w \<mapsto> PyList []]\<rparr>"
    if m: "is_any w \<or> is_none w"
  proof -
    from m have m': "is_none w \<or> is_any w" by blast
    have "has_list (snd (add r x w))"
      using forms_of_cleared [of w]
      by (auto simp: add_marker_state [OF m'] split: sum.splits error.splits)
    moreover have "\<forall>h. r x = Inr h \<longrightarrow>
           add r x w = (Inr (), w\<lparr>data := [typeof w \<mapsto> PyList [h]]\<rparr>)"
      by (simp add: add_marker_state [OF m'] update_key_def clear_def)
    moreover have "add_many r [] w = w\<lparr>data := [typeof w \<mapsto> PyList []]\<rparr>"
      using m by (auto simp: add_many_def element_resolver_list_def List.map_filter_simps
          update_key_def clear_def)
    ultimately show ?thesis by simp
  qed
  have f: "\<forall>h. r x = Inr h \<longrightarrow>
        add r x (set_any w) = (Inr (), w\<lparr>data := [typeof w \<mapsto> PyList [h]]\<rparr>)"
  proof (intro allI impI)
    fix h
    assume h: "r x = Inr h"
    have "is_none (set_any w) \<or> is_any (set_any w)" using a by simp
    from add_marker_state [OF this, of r x] h
    have "add r x (set_any w) =
            (Inr (), update_key (typeof (set_any w)) (PyList [h]) (clear (set_any w)))"
      by simp
    then show "add r x (set_any w) = (Inr (), w\<lparr>data := [typeof w \<mapsto> PyList [h]]\<rparr>)"
      by (simp add: set_any_def update_key_def clear_def)
  qed
  from a b c d e f show ?thesis by blast
qed

theorem one_form_active_witness:
  "has_list (snd (add (\<lambda>x. Inr x) ''http://smc/6.5/elements/host/1'' (new_RuleElement Source)))
   \<and> add (\<lambda>x. Inr x) ''http://smc/6.5/elements/host/1'' (new_RuleElement Source) =
       (Inr (), \<lparr>data = [''src'' \<mapsto> PyList [''http://smc/6.5/elements/host/1'']], field = Source\<rparr>)
   \<and> add_many (\<lambda>x. Inr x) [] (new_RuleElement Source) =
       \<lparr>data = [''src'' \<mapsto> PyList []], field = Source\<rparr>
   \<and> add (\<lambda>x. Inr x) ''http://smc/6.5/elements/host/1'' (set_any (new_RuleElement Source)) =
       (Inr (), \<lparr>data = [''src'' \<mapsto> PyList [''http://smc/6.5/elements/host/1'']], field = Source\<rparr>)"
proof -
  have m: "is_any (new_RuleElement Source) \<or> is_none (new_RuleElement Source)"
    by (simp add: new_RuleElement_def is_none_def contains_key_def)
  have r: "(\<lambda>x. Inr x :: error + string) ''http://smc/6.5/elements/host/1'' =
             Inr ''http://smc/6.5/elements/host/1''"
    by simp
  have t: "typeof (new_RuleElement Source) = ''src''"
    by (simp add: typeof_def new_RuleElement_def)
  note inst = one_form_active [of "new_RuleElement Source" "\<lambda>x. Inr x"
      "''http://smc/6.5/elements/host/1''" "[]"]
  have u: "(new_RuleElement Source)\<lparr>data := d\<rparr> = \<lparr>data = d, field = Source\<rparr>" for d
    by (simp add: new_RuleElement_def)
  from inst m have p1:
    "has_list (snd (add (\<lambda>x. Inr x) ''http://smc/6.5/elements/host/1'' (new_RuleElement Source)))"
    by blast
  from inst m r have "add (\<lambda>x. Inr x) ''http://smc/6.5/elements/host/1'' (new_RuleElement Source) =
      (Inr (), (new_RuleElement Source)\<lparr>data := [typeof (new_RuleElement Source) \<mapsto>
         PyList [''http://smc/6.5/elements/host/1'']]\<rparr>)"
    by blast
  then have p2: "add (\<lambda>x. Inr x) ''http://smc/6.5/elements/host/1'' (new_RuleElement Source) =
       (Inr (), \<lparr>data = [''src'' \<mapsto> PyList [''http://smc/6.5/elements/host/1'']], field = Source\<rparr>)"
    by (simp add: t u)
  from inst m have "add_many (\<lambda>x. Inr x) [] (new_RuleElement Source) =
      (new_RuleElement Source)\<lparr>data := [typeof (new_RuleElement Source) \<mapsto> PyList []]\<rparr>"
    by blast
  then have p3: "add_many (\<lambda>x. Inr x) [] (new_RuleElement Source) =
       \<lparr>data = [''src'' \<mapsto> PyList []], field = Source\<rparr>"
    by (simp add: t u)
  from inst r have "add (\<lambda>x. Inr x) ''http://smc/6.5/elements/host/1'' (set_any (new_RuleElement Source)) =
      (Inr (), (new_RuleElement Source)\<lparr>data := [typeof (new_RuleElement Source) \<mapsto>
         PyList [''http://smc/6.5/elements/host/1'']]\<rparr>)"
    by blast
  then have p4: "add (\<lambda>x. Inr x) ''http://smc/6.5/elements/host/1'' (set_any (new_RuleElement Source)) =
       (Inr (), \<lparr>data = [''src'' \<mapsto> PyList [''http://smc/6.5/elements/host/1'']], field = Source\<rparr>)"
    by (simp add: t u)
  from p1 p2 p3 p4 show ?thesis by blast
qed

text \<open>
  C6 fails on the code: in a marker state \<^verbatim>\<open>all\<close> returns the empty list, but
  \<^verbatim>\<open>all_as_href\<close> returns \<^verbatim>\<open>None\<close>, here for a wrapper created without a rule
  (the marker \<^verbatim>\<open>none\<close>) and after \<^verbatim>\<open>set_any\<close>.
\<close>

theorem all_as_href_marker_state:
  "all_as_href (new_RuleElement Source) = Inr None
   \<and> all_elements from_href (new_RuleElement Source) = Inr []
   \<and> all_as_href (set_any (new_RuleElement Source)) = Inr None
   \<and> all_elements from_href (set_any (new_RuleElement Source)) = Inr []"
  by (simp add: all_as_href_def all_elements_def new_RuleElement_def set_any_def is_any_def
      is_none_def contains_key_def update_key_def clear_def)

text \<open>
  C7: for every wrapper that is in a marker state or holds an explicit list, and every
  item whose resolution raises \<^verbatim>\<open>ElementNotFound\<close>, \<^verbatim>\<open>add\<close> raises nothing and the
  item is not in the list afterwards: a wrapper that held a list is unchanged, and a
  wrapper that was in a marker state holds the empty list, the marker cleared.
\<close>

theorem add_swallows_ElementNotFound:
  assumes "r x = Inl ElementNotFound"
      and "is_any w \<or> is_none w \<or> has_list w"
  shows "add r x w =
           (Inr (), if is_any w \<or> is_none w then w\<lparr>data := [typeof w \<mapsto> PyList []]\<rparr> else w)"
proof (cases "is_none w \<or> is_any w")
  case True
  from add_marker_state [OF True, of r x] assms(1)
  have "add r x w = (Inr (), update_key (typeof w) (PyList []) (clear w))"
    by simp
  with True show ?thesis
    by (auto simp: update_key_def clear_def)
next
  case False
  with assms(2) have "has_list w" by blast
  then obtain xs where "get_key w (typeof w) = Some (PyList xs)"
    by (auto simp: has_list_def split: option.splits pyval.splits)
  with False assms(1) show ?thesis
    by (auto simp: add_def)
qed

theorem add_swallows_ElementNotFound_witness:
  "add (\<lambda>x. if x = ''gone'' then Inl ElementNotFound else Inr x) ''gone'' (new_RuleElement Source) =
     (Inr (), \<lparr>data = [''src'' \<mapsto> PyList []], field = Source\<rparr>)
   \<and> add (\<lambda>x. if x = ''gone'' then Inl ElementNotFound else Inr x) ''gone''
       \<lparr>data = [''src'' \<mapsto> PyList [''http://smc/6.5/elements/host/1'']], field = Source\<rparr> =
     (Inr (), \<lparr>data = [''src'' \<mapsto> PyList [''http://smc/6.5/elements/host/1'']], field = Source\<rparr>)"
proof -
  let ?r = "\<lambda>x. if x = ''gone'' then Inl ElementNotFound else (Inr x :: error + string)"
  let ?w = "\<lparr>data = [''src'' \<mapsto> PyList [''http://smc/6.5/elements/host/1'']], field = Source\<rparr>"
  have r: "?r ''gone'' = Inl ElementNotFound" by simp
  have m: "is_any (new_RuleElement Source) \<or> is_none (new_RuleElement Source) \<or>
           has_list (new_RuleElement Source)"
    by (simp add: new_RuleElement_def is_none_def contains_key_def)
  have l: "is_any ?w \<or> is_none ?w \<or> has_list ?w"
    by (simp add: has_list_def get_key_def typeof_def)
  have nm: "\<not> (is_any ?w \<or> is_none ?w)"
    by (simp add: is_any_def is_none_def contains_key_def)
  have t: "typeof (new_RuleElement Source) = ''src''"
    by (simp add: typeof_def new_RuleElement_def)
  have u: "(new_RuleElement Source)\<lparr>data := d\<rparr> = \<lparr>data = d, field = Source\<rparr>" for d
    by (simp add: new_RuleElement_def)
  have m': "is_any (new_RuleElement Source) \<or> is_none (new_RuleElement Source)"
    by (simp add: new_RuleElement_def is_none_def contains_key_def)
  from add_swallows_ElementNotFound [of ?r, OF r m]
  have one: "add ?r ''gone'' (new_RuleElement Source) =
     (Inr (), \<lparr>data = [''src'' \<mapsto> PyList []], field = Source\<rparr>)"
    using m' by (simp add: t u)
  from add_swallows_ElementNotFound [of ?r, OF r l]
  have two: "add ?r ''gone'' ?w = (Inr (), ?w)"
    using nm by simp
  from one two show ?thesis ..
qed

text \<open>
  C10: for every state of the log options and every value passed to the setter of
  \<^verbatim>\<open>log_level\<close>, the accounting flag is true afterwards; it is the boolean
  \<^verbatim>\<open>True\<close> whenever it was false, absent or already \<^verbatim>\<open>True\<close> before. A value
  outside the five allowed levels leaves \<^verbatim>\<open>log_level\<close> unchanged, an allowed one is
  stored.
\<close>

theorem log_level_forces_accounting:
  "truthy_opt (log_accounting_info_mode (log_level_setter v lo))
   \<and> (\<not> truthy_opt (log_accounting_info_mode lo) \<or>
      log_accounting_info_mode lo = Some (PyBool True)
      \<longrightarrow> log_accounting_info_mode (log_level_setter v lo) = Some (PyBool True))
   \<and> log_level (log_level_setter v lo) =
       (if v \<in> set (map PyStr [''none'', ''stored'', ''transient'', ''essential'', ''alert''])
        then Some v else log_level lo)"
  by (auto simp: log_level_setter_def log_accounting_info_mode_setter_def
      log_accounting_info_mode_def log_level_def Let_def update_key_def get_key_def truthy_opt_def)

theorem log_level_forces_accounting_witness:
  "log_accounting_info_mode (log_level_setter (PyStr ''bogus'') new_LogOptions) = Some (PyBool True)
   \<and> log_level (log_level_setter (PyStr ''bogus'') new_LogOptions) = Some (PyStr ''undefined'')
   \<and> log_accounting_info_mode (log_level_setter (PyStr ''stored'') new_LogOptions) = Some (PyBool True)
   \<and> log_level (log_level_setter (PyStr ''stored'') new_LogOptions) = Some (PyStr ''stored'')"
proof -
  have f: "\<not> truthy_opt (log_accounting_info_mode new_LogOptions) \<or>
           log_accounting_info_mode new_LogOptions = Some (PyBool True)"
    by (simp add: log_accounting_info_mode_def new_LogOptions_def get_key_def truthy_opt_def)
  have l: "log_level new_LogOptions = Some (PyStr ''undefined'')"
    by (simp add: log_level_def new_LogOptions_def get_key_def)
  from log_level_forces_accounting [of "PyStr ''bogus''" new_LogOptions]
       log_level_forces_accounting [of "PyStr ''stored''" new_LogOptions] f l
  show ?thesis by simp
qed

section \<open>Properties of the element filters\<close>








end
